theory Spec2Isabelle
  imports Main "HOL-Library.Word"
begin

section \<open>Data model\<close>

text \<open>
  The core of the screenshot tool (src/SpectacleCore.cpp) is a Qt object: a handful of
  fields, slots that react to signals, and calls into the framework. The model passes
  the object's state explicitly; every call a slot makes on the outside world (timer,
  message box, export manager, main window, ...) is an entry of the event list the slot
  returns, in program order. What the framework answers (platform, compositing, Qt's
  path and URL functions, the configuration file) is read from an environment record.
\<close>

type_synonym int32 = "32 word"
type_synonym qint64 = "64 word"

datatype StartMode = DBusMode | BackgroundMode | GuiMode

text \<open>
  \<open>ImageGrabber::GrabMode\<close> is declared in PlatformBackends/ImageGrabber.h. The core
  names five of its values (in \<open>doNotify\<close>); every other value of the enum takes the
  \<open>default:\<close> branch there and is \<open>OtherGrabMode\<close>.
\<close>

datatype GrabMode =
    FullScreen | CurrentScreen | ActiveWindow | WindowUnderCursor | RectangularRegion
  | OtherGrabMode nat

text \<open>The three classes the constructor instantiates behind the \<open>ImageGrabber\<close> pointer.\<close>

datatype Backend = X11ImageGrabber | KWinWaylandImageGrabber | DummyImageGrabber

text \<open>
  \<open>QUrl\<close> is a Qt class; it is represented by the observations the core makes of it:
  \<open>isValid()\<close>, \<open>isLocalFile()\<close>, \<open>fileName()\<close>, \<open>toLocalFile()\<close> and
  \<open>adjusted(RemoveFilename | StripTrailingSlash).path()\<close>.
\<close>

record QUrl =
  isValid :: bool
  isLocalFile :: bool
  fileName :: string
  toLocalFile :: string
  adjustedPath :: string

text \<open>The default-constructed \<open>QUrl()\<close>: invalid and empty.\<close>

definition QUrl_empty :: QUrl where
  "QUrl_empty = \<lparr>isValid = False, isLocalFile = False, fileName = [], toLocalFile = [],
     adjustedPath = []\<rparr>"

text \<open>A \<open>QPixmap\<close> is opaque to the core: it is identified by a number.\<close>

datatype QPixmap = QPixmap nat

record ImageGrabber =
  backend :: Backend
  mGrabMode :: GrabMode
  mCapturePointer :: bool
  mCaptureDecorations :: bool

text \<open>\<open>KSMainWindow\<close> is built from one flag: whether on-click grabbing is offered.\<close>

record KSMainWindow =
  mOnClickAvailable :: bool

subsection \<open>Signals, slots and effects\<close>

text \<open>The signals whose connections the core sets up.\<close>

datatype signal =
    ExportManager_errorMessage
  | SpectacleCore_errorMessage
  | ImageGrabber_pixmapChanged
  | ImageGrabber_imageGrabFailed
  | ExportManager_imageSaved
  | ExportManager_forceNotify
  | KSMainWindow_newScreenshotRequest
  | KSMainWindow_dragAndDropRequest
  | KNotification_action1Activated nat
  | QObject_destroyed nat

text \<open>
  The receivers of those connections: slots of the core, its signal \<open>allDone\<close> (a
  signal connected to a signal), and the closure \<open>doNotify\<close> builds around \<open>savedAt\<close>.
\<close>

datatype slot =
    Slot_showErrorMessage
  | Slot_screenshotUpdated
  | Slot_screenshotFailed
  | Slot_doCopyPath
  | Slot_doNotify
  | Slot_takeNewScreenshot
  | Slot_doStartDragAndDrop
  | Signal_allDone
  | Lambda_openSaved QUrl

text \<open>An emission is a signal with its arguments.\<close>

datatype emission =
    Emit_ExportManager_errorMessage string
  | Emit_SpectacleCore_errorMessage string
  | Emit_pixmapChanged QPixmap
  | Emit_imageGrabFailed
  | Emit_imageSaved QUrl
  | Emit_forceNotify QUrl
  | Emit_newScreenshotRequest GrabMode int32 bool bool
  | Emit_dragAndDropRequest
  | Emit_action1Activated nat
  | Emit_destroyed nat

fun signalOf :: "emission \<Rightarrow> signal" where
  "signalOf (Emit_ExportManager_errorMessage s) = ExportManager_errorMessage"
| "signalOf (Emit_SpectacleCore_errorMessage s) = SpectacleCore_errorMessage"
| "signalOf (Emit_pixmapChanged p) = ImageGrabber_pixmapChanged"
| "signalOf Emit_imageGrabFailed = ImageGrabber_imageGrabFailed"
| "signalOf (Emit_imageSaved u) = ExportManager_imageSaved"
| "signalOf (Emit_forceNotify u) = ExportManager_forceNotify"
| "signalOf (Emit_newScreenshotRequest m t p d) = KSMainWindow_newScreenshotRequest"
| "signalOf Emit_dragAndDropRequest = KSMainWindow_dragAndDropRequest"
| "signalOf (Emit_action1Activated n) = KNotification_action1Activated n"
| "signalOf (Emit_destroyed n) = QObject_destroyed n"

text \<open>What a single-shot timer or a queued call invokes when it fires.\<close>

datatype TimerTarget = Target_doImageGrab | Target_allDone

text \<open>The calls the core makes on the world around it.\<close>

datatype event =
    TimerSingleShot int32 TimerTarget
  | QueuedInvoke_doImageGrab
  | Grabber_doOnClickGrab
  | Grabber_doImageGrab
  | DebugLog string string
  | MessageBoxError string
  | ExportManager_doSave QUrl
  | Emit_grabFailed
  | Emit_allDone
  | MainWindow_setScreenshotAndShow QPixmap
  | MainWindow_show
  | Notification_sendEvent nat "string option" string QUrl
  | KRun_open QUrl
  | Clipboard_setText string
  | Drag_exec QUrl "QPixmap option"
  | App_setQuitOnLastWindowClosed bool

text \<open>
  A null pointer that is dereferenced, and a slot invoked with the arguments of a
  signal it cannot be connected to (the compiler rejects such a \<open>connect\<close>).
\<close>

datatype error = NullPointerDereference | IllTypedConnection

subsection \<open>The environment\<close>

text \<open>
  \<open>XCB_FOUND\<close> is the build option; the next three are \<open>KWindowSystem\<close>'s answers;
  \<open>onClickGrabSupported\<close> is the virtual method of the grabber classes (their sources
  are in PlatformBackends/); \<open>includePointer\<close> and \<open>includeDecorations\<close> are the
  entries of group GuiConfig in spectaclerc (default true);
  \<open>isRelativePath\<close> is \<open>QDir::isRelativePath\<close>, \<open>absoluteFilePath\<close> is
  \<open>QDir::current().absoluteFilePath\<close>, \<open>fromUserInput\<close> is \<open>QUrl::fromUserInput\<close>;
  \<open>picturesLocation\<close> is \<open>QStandardPaths::writableLocation(PicturesLocation)\<close>;
  \<open>copySaveLocationToClipboard\<close> is the \<open>SpectacleConfig\<close> setting and \<open>tempSave\<close> the
  URL \<open>ExportManager::tempSave()\<close> answers.
\<close>

record Env =
  XCB_FOUND :: bool
  isPlatformX11 :: bool
  isPlatformWayland :: bool
  compositingActive :: bool
  onClickGrabSupported :: "Backend \<Rightarrow> bool"
  includePointer :: bool
  includeDecorations :: bool
  isRelativePath :: "string \<Rightarrow> bool"
  absoluteFilePath :: "string \<Rightarrow> string"
  fromUserInput :: "string \<Rightarrow> QUrl"
  picturesLocation :: string
  copySaveLocationToClipboard :: bool
  tempSave :: QUrl

subsection \<open>The core object\<close>

text \<open>
  The fields of \<open>SpectacleCore\<close>, pointers as options (\<open>None\<close> is \<open>nullptr\<close>);
  \<open>connections\<close> is Qt's connection table, in the order the connections were made;
  \<open>notifications\<close> counts the \<open>KNotification\<close> objects allocated so far (it names the
  next one); \<open>mSavePixmap\<close> is the pixmap held by the export manager singleton behind
  \<open>mExportManager\<close> (see \<open>ExportManager_setPixmap\<close> below), none before the first
  capture.
\<close>

record SpectacleCore =
  mStartMode :: StartMode
  mNotify :: bool
  mImageGrabber :: "ImageGrabber option"
  mMainWindow :: "KSMainWindow option"
  isGuiInited :: bool
  mFileNameString :: string
  mFileNameUrl :: QUrl
  connections :: "(signal \<times> slot) list"
  notifications :: nat
  mSavePixmap :: "QPixmap option"

type_synonym result = "error + (SpectacleCore \<times> event list)"

section \<open>Operations\<close>

subsection \<open>Property accessors\<close>

definition filename :: "SpectacleCore \<Rightarrow> string" where
  "filename c = mFileNameString c"

definition setFilename :: "Env \<Rightarrow> string \<Rightarrow> SpectacleCore \<Rightarrow> SpectacleCore" where
  "setFilename env fname c =
     c\<lparr>mFileNameString := fname, mFileNameUrl := fromUserInput env fname\<rparr>"

definition grabMode :: "SpectacleCore \<Rightarrow> error + GrabMode" where
  "grabMode c =
     (case mImageGrabber c of
        None \<Rightarrow> Inl NullPointerDereference
      | Some g \<Rightarrow> Inr (mGrabMode g))"

definition setGrabMode :: "GrabMode \<Rightarrow> SpectacleCore \<Rightarrow> result" where
  "setGrabMode gm c =
     (case mImageGrabber c of
        None \<Rightarrow> Inl NullPointerDereference
      | Some g \<Rightarrow> Inr (c\<lparr>mImageGrabber := Some (g\<lparr>mGrabMode := gm\<rparr>)\<rparr>, []))"

subsection \<open>Construction\<close>

text \<open>
  Lines 65 to 76 of the constructor: the pointer starts null, each test looks at the
  pointer the tests before it left.
\<close>

definition chooseImageGrabber :: "Env \<Rightarrow> Backend option" where
  "chooseImageGrabber env =
     (let g0 = None;
          g1 = (if XCB_FOUND env \<and> isPlatformX11 env then Some X11ImageGrabber else g0);
          g2 = (if g1 = None \<and> isPlatformWayland env
                then Some KWinWaylandImageGrabber else g1);
          g3 = (if g2 = None then Some DummyImageGrabber else g2)
      in g3)"

text \<open>
  \<open>initGui\<close>: the first call builds the main window, connects its two requests and
  queues one \<open>doImageGrab\<close> on the event loop; a later call does nothing.
\<close>

definition initGui :: "Env \<Rightarrow> SpectacleCore \<Rightarrow> result" where
  "initGui env c =
     (if \<not> isGuiInited c then
        (case mImageGrabber c of
           None \<Rightarrow> Inl NullPointerDereference
         | Some g \<Rightarrow>
             Inr (c\<lparr>mMainWindow :=
                      Some \<lparr>mOnClickAvailable = onClickGrabSupported env (backend g)\<rparr>,
                    connections := connections c @
                      [(KSMainWindow_newScreenshotRequest, Slot_takeNewScreenshot),
                       (KSMainWindow_dragAndDropRequest, Slot_doStartDragAndDrop)],
                    isGuiInited := True\<rparr>,
                  [QueuedInvoke_doImageGrab]))
      else Inr (c, []))"

text \<open>
  The constructor. \<open>saveFileName.isEmpty() || saveFileName.isNull()\<close> is emptiness (a
  null \<open>QString\<close> is empty). \<open>delayMsec\<close> is a \<open>qint64\<close>: on line 97 the
  \<open>int\<close> 200 or 50 is converted to 64 bits, the sum is taken in 64 bits, and the
  initialisation of \<open>int msec\<close> narrows it to its low 32 bits. That \<open>int\<close> is what
  \<open>QTimer::singleShot\<close> is given.
\<close>

definition SpectacleCore_ctor ::
  "Env \<Rightarrow> StartMode \<Rightarrow> GrabMode \<Rightarrow> string \<Rightarrow> qint64 \<Rightarrow> bool \<Rightarrow> result" where
  "SpectacleCore_ctor env startMode grabMode0 saveFileName delayMsec notifyOnGrab =
     (let c0 = \<lparr>mStartMode = startMode, mNotify = notifyOnGrab, mImageGrabber = None,
                 mMainWindow = None, isGuiInited = False, mFileNameString = [],
                 mFileNameUrl = QUrl_empty, connections = [], notifications = 0,
                 mSavePixmap = None\<rparr>;
          c1 = (if \<not> (saveFileName = []) then
                  setFilename env
                    (if isRelativePath env saveFileName
                     then absoluteFilePath env saveFileName else saveFileName) c0
                else c0)
      in case chooseImageGrabber env of
           None \<Rightarrow> Inl NullPointerDereference
         | Some b \<Rightarrow>
            (let g = \<lparr>backend = b, mGrabMode = grabMode0,
                       mCapturePointer = includePointer env,
                       mCaptureDecorations = includeDecorations env\<rparr>;
                 delayMsec' = (if \<not> onClickGrabSupported env b \<and> sint delayMsec < 0
                               then 0 else delayMsec);
                 c2 = c1\<lparr>mImageGrabber := Some g,
                         connections :=
                           [(ExportManager_errorMessage, Slot_showErrorMessage),
                            (SpectacleCore_errorMessage, Slot_showErrorMessage),
                            (ImageGrabber_pixmapChanged, Slot_screenshotUpdated),
                            (ImageGrabber_imageGrabFailed, Slot_screenshotFailed),
                            (ExportManager_imageSaved, Slot_doCopyPath),
                            (ExportManager_forceNotify, Slot_doNotify)]\<rparr>
             in case startMode of
                  DBusMode \<Rightarrow> Inr (c2, [])
                | BackgroundMode \<Rightarrow>
                    (let msec = (scast ((if compositingActive env then 200 else 50)
                                         + delayMsec') :: int32)
                     in Inr (c2, [TimerSingleShot msec Target_doImageGrab]))
                | GuiMode \<Rightarrow> initGui env c2))"

subsection \<open>Slots\<close>

definition dbusStartAgent :: "Env \<Rightarrow> SpectacleCore \<Rightarrow> result" where
  "dbusStartAgent env c =
     (if \<not> (mStartMode c = GuiMode) then
        (case initGui env (c\<lparr>mStartMode := GuiMode\<rparr>) of
           Inl e \<Rightarrow> Inl e
         | Inr (c', evs) \<Rightarrow> Inr (c', App_setQuitOnLastWindowClosed True # evs))
      else Inr (c, [App_setQuitOnLastWindowClosed True]))"

text \<open>
  \<open>takeNewScreenshot\<close>: \<open>timeout\<close> and \<open>msec\<close> are \<open>int\<close>; their sum is taken in 32
  bits, two's complement (the language leaves a sum beyond the range of \<open>int\<close>
  undefined; nothing below relies on the value the model gives it).
\<close>

definition takeNewScreenshot ::
  "Env \<Rightarrow> GrabMode \<Rightarrow> int32 \<Rightarrow> bool \<Rightarrow> bool \<Rightarrow> SpectacleCore \<Rightarrow> result" where
  "takeNewScreenshot env mode timeout includePointer' includeDecorations' c =
     (case mImageGrabber c of
        None \<Rightarrow> Inl NullPointerDereference
      | Some g \<Rightarrow>
         (let c' = c\<lparr>mImageGrabber :=
                       Some (g\<lparr>mGrabMode := mode, mCapturePointer := includePointer',
                               mCaptureDecorations := includeDecorations'\<rparr>)\<rparr>
          in if sint timeout < 0 then Inr (c', [Grabber_doOnClickGrab])
             else (let msec = (if compositingActive env then 200 else 50) :: int32
                   in Inr (c', [TimerSingleShot (timeout + msec) Target_doImageGrab]))))"

definition showErrorMessage :: "string \<Rightarrow> SpectacleCore \<Rightarrow> SpectacleCore \<times> event list" where
  "showErrorMessage errString c =
     (c, DebugLog ''ERROR: '' errString #
         (if mStartMode c = GuiMode then [MessageBoxError errString] else []))"

text \<open>
  Modelled from the spec: \<open>ExportManager::setPixmap\<close> (ExportManager.cpp is not among
  the sources). The spec's data model has "a single in-memory pixmap" and "at most one
  pending screenshot": the manager holds one pixmap, and setting it replaces the one
  held.
\<close>

definition ExportManager_setPixmap :: "QPixmap \<Rightarrow> SpectacleCore \<Rightarrow> SpectacleCore" where
  "ExportManager_setPixmap pixmap c = c\<lparr>mSavePixmap := Some pixmap\<rparr>"

text \<open>
  \<open>screenshotUpdated\<close>: BackgroundMode and DBusMode share one branch; \<open>doSave\<close> is
  asynchronous, what it reports later arrives as a signal of the export manager.
\<close>

definition screenshotUpdated :: "QPixmap \<Rightarrow> SpectacleCore \<Rightarrow> result" where
  "screenshotUpdated pixmap c =
     (let c1 = ExportManager_setPixmap pixmap c;
          saveInBackground =
            (let c2 = (if mNotify c1
                       then c1\<lparr>connections := connections c1 @
                                 [(ExportManager_imageSaved, Slot_doNotify)]\<rparr>
                       else c1);
                 savePath = (if mStartMode c2 = BackgroundMode \<and> isValid (mFileNameUrl c2)
                                \<and> isLocalFile (mFileNameUrl c2)
                             then mFileNameUrl c2 else QUrl_empty)
             in Inr (c2, ExportManager_doSave savePath #
                         (if \<not> mNotify c2 then [Emit_allDone] else [])))
      in case mStartMode c1 of
           BackgroundMode \<Rightarrow> saveInBackground
         | DBusMode \<Rightarrow> saveInBackground
         | GuiMode \<Rightarrow>
            (case mMainWindow c1 of
               None \<Rightarrow> Inl NullPointerDereference
             | Some w \<Rightarrow> Inr (c1, [MainWindow_setScreenshotAndShow pixmap])))"

text \<open>
  \<open>screenshotFailed\<close>: the BackgroundMode case has no \<open>break\<close> and falls through
  to the DBusMode case.
\<close>

definition screenshotFailed :: "SpectacleCore \<Rightarrow> result" where
  "screenshotFailed c =
     (case mStartMode c of
        BackgroundMode \<Rightarrow>
          (let (c1, evs) = showErrorMessage ''Screenshot capture canceled or failed'' c
           in Inr (c1, evs @ [Emit_grabFailed, Emit_allDone]))
      | DBusMode \<Rightarrow> Inr (c, [Emit_grabFailed, Emit_allDone])
      | GuiMode \<Rightarrow>
          (case mMainWindow c of
             None \<Rightarrow> Inl NullPointerDereference
           | Some w \<Rightarrow> Inr (c, [MainWindow_show])))"

fun notificationTitle :: "GrabMode \<Rightarrow> string option" where
  "notificationTitle FullScreen = Some ''Full Screen Captured''"
| "notificationTitle CurrentScreen = Some ''Current Screen Captured''"
| "notificationTitle ActiveWindow = Some ''Active Window Captured''"
| "notificationTitle WindowUnderCursor = Some ''Window Under Cursor Captured''"
| "notificationTitle RectangularRegion = Some ''Rectangular Region Captured''"
| "notificationTitle (OtherGrabMode n) = None"

text \<open>
  \<open>doNotify\<close> allocates a notification, connects its Open action to a closure over
  \<open>savedAt\<close> and its destruction to \<open>allDone\<close>, and sends it.
\<close>

definition doNotify :: "Env \<Rightarrow> QUrl \<Rightarrow> SpectacleCore \<Rightarrow> result" where
  "doNotify env savedAt c =
     (case mImageGrabber c of
        None \<Rightarrow> Inl NullPointerDereference
      | Some g \<Rightarrow>
         (let n = notifications c;
              title = notificationTitle (mGrabMode g);
              path = adjustedPath savedAt;
              txt = (if path = picturesLocation env
                     then ''A screenshot was saved as '' @ [CHR 0x27] @ fileName savedAt
                          @ [CHR 0x27] @ '' to your Pictures folder.''
                     else ''A screenshot was saved as '' @ [CHR 0x27] @ fileName savedAt
                          @ [CHR 0x27] @ '' to '' @ [CHR 0x27] @ path @ [CHR 0x27] @ ''.'')
          in Inr (c\<lparr>notifications := Suc n,
                    connections := connections c @
                      [(KNotification_action1Activated n, Lambda_openSaved savedAt),
                       (QObject_destroyed n, Signal_allDone)]\<rparr>,
                  [Notification_sendEvent n title txt savedAt])))"

definition doCopyPath :: "Env \<Rightarrow> QUrl \<Rightarrow> SpectacleCore \<Rightarrow> SpectacleCore \<times> event list" where
  "doCopyPath env savedAt c =
     (c, if copySaveLocationToClipboard env then [Clipboard_setText (toLocalFile savedAt)]
         else [])"

definition doStartDragAndDrop :: "Env \<Rightarrow> SpectacleCore \<Rightarrow> SpectacleCore \<times> event list" where
  "doStartDragAndDrop env c =
     (let tempFile = tempSave env
      in if \<not> isValid tempFile then (c, [])
         else (c, [Drag_exec tempFile (mSavePixmap c)]))"

text \<open>The closure of \<open>doNotify\<close>, run when the notification's Open action is activated.\<close>

definition openSaved :: "QUrl \<Rightarrow> SpectacleCore \<Rightarrow> SpectacleCore \<times> event list" where
  "openSaved savedAt c = (c, [KRun_open savedAt, TimerSingleShot 250 Target_allDone])"

section \<open>Signal delivery and the event loop\<close>

text \<open>
  Invoking a receiver with the arguments of an emission. \<open>destroyed(QObject*)\<close> is
  connected to the argumentless \<open>allDone\<close>, which drops the argument.
\<close>

definition invoke :: "Env \<Rightarrow> slot \<Rightarrow> emission \<Rightarrow> SpectacleCore \<Rightarrow> result" where
  "invoke env sl em c =
     (case sl of
        Slot_showErrorMessage \<Rightarrow>
          (case em of
             Emit_ExportManager_errorMessage s \<Rightarrow> Inr (showErrorMessage s c)
           | Emit_SpectacleCore_errorMessage s \<Rightarrow> Inr (showErrorMessage s c)
           | _ \<Rightarrow> Inl IllTypedConnection)
      | Slot_screenshotUpdated \<Rightarrow>
          (case em of
             Emit_pixmapChanged p \<Rightarrow> screenshotUpdated p c
           | _ \<Rightarrow> Inl IllTypedConnection)
      | Slot_screenshotFailed \<Rightarrow>
          (case em of
             Emit_imageGrabFailed \<Rightarrow> screenshotFailed c
           | _ \<Rightarrow> Inl IllTypedConnection)
      | Slot_doCopyPath \<Rightarrow>
          (case em of
             Emit_imageSaved u \<Rightarrow> Inr (doCopyPath env u c)
           | _ \<Rightarrow> Inl IllTypedConnection)
      | Slot_doNotify \<Rightarrow>
          (case em of
             Emit_imageSaved u \<Rightarrow> doNotify env u c
           | Emit_forceNotify u \<Rightarrow> doNotify env u c
           | _ \<Rightarrow> Inl IllTypedConnection)
      | Slot_takeNewScreenshot \<Rightarrow>
          (case em of
             Emit_newScreenshotRequest m t p d \<Rightarrow> takeNewScreenshot env m t p d c
           | _ \<Rightarrow> Inl IllTypedConnection)
      | Slot_doStartDragAndDrop \<Rightarrow>
          (case em of
             Emit_dragAndDropRequest \<Rightarrow> Inr (doStartDragAndDrop env c)
           | _ \<Rightarrow> Inl IllTypedConnection)
      | Signal_allDone \<Rightarrow>
          (case em of
             Emit_destroyed n \<Rightarrow> Inr (c, [Emit_allDone])
           | _ \<Rightarrow> Inl IllTypedConnection)
      | Lambda_openSaved u \<Rightarrow>
          (case em of
             Emit_action1Activated n \<Rightarrow> Inr (openSaved u c)
           | _ \<Rightarrow> Inl IllTypedConnection))"

text \<open>The receivers run one after the other, in connection order, each on the state
  the one before it left.\<close>

fun invokeAll :: "Env \<Rightarrow> slot list \<Rightarrow> emission \<Rightarrow> SpectacleCore \<Rightarrow> result" where
  "invokeAll env [] em c = Inr (c, [])"
| "invokeAll env (sl # sls) em c =
     (case invoke env sl em c of
        Inl e \<Rightarrow> Inl e
      | Inr (c1, evs1) \<Rightarrow>
         (case invokeAll env sls em c1 of
            Inl e \<Rightarrow> Inl e
          | Inr (c2, evs2) \<Rightarrow> Inr (c2, evs1 @ evs2)))"

text \<open>An emission reaches the receivers connected when it starts.\<close>

definition receivers :: "signal \<Rightarrow> SpectacleCore \<Rightarrow> slot list" where
  "receivers sg c = map snd (filter (\<lambda>cn. fst cn = sg) (connections c))"

definition emitSignal :: "Env \<Rightarrow> emission \<Rightarrow> SpectacleCore \<Rightarrow> result" where
  "emitSignal env em c = invokeAll env (receivers (signalOf em) c) em c"

text \<open>
  What the event loop delivers to the core: a signal of another object, a timer or
  queued call that comes due, the D-Bus call \<open>dbusStartAgent\<close>, a write of one of the
  two properties.
\<close>

datatype stimulus =
    Emitted emission
  | TimerFired TimerTarget
  | Call_dbusStartAgent
  | Call_setFilename string
  | Call_setGrabMode GrabMode

text \<open>
  The session: the core, everything it did so far, and the timers and queued calls
  still to come due. Only a pending timer fires.
\<close>

record Session =
  core :: SpectacleCore
  trace :: "event list"
  pending :: "TimerTarget list"

fun scheduled :: "event list \<Rightarrow> TimerTarget list" where
  "scheduled [] = []"
| "scheduled (TimerSingleShot d t # evs) = t # scheduled evs"
| "scheduled (QueuedInvoke_doImageGrab # evs) = Target_doImageGrab # scheduled evs"
| "scheduled (ev # evs) = scheduled evs"

fun fire :: "TimerTarget \<Rightarrow> SpectacleCore \<Rightarrow> SpectacleCore \<times> event list" where
  "fire Target_doImageGrab c = (c, [Grabber_doImageGrab])"
| "fire Target_allDone c = (c, [Emit_allDone])"

fun react :: "Env \<Rightarrow> stimulus \<Rightarrow> SpectacleCore \<Rightarrow> TimerTarget list
              \<Rightarrow> error + (SpectacleCore \<times> event list \<times> TimerTarget list)" where
  "react env (Emitted em) c pend =
     (case emitSignal env em c of
        Inl e \<Rightarrow> Inl e | Inr (c', evs) \<Rightarrow> Inr (c', evs, pend))"
| "react env (TimerFired t) c pend =
     (if t \<in> set pend
      then (let (c', evs) = fire t c in Inr (c', evs, remove1 t pend))
      else Inr (c, [], pend))"
| "react env Call_dbusStartAgent c pend =
     (case dbusStartAgent env c of
        Inl e \<Rightarrow> Inl e | Inr (c', evs) \<Rightarrow> Inr (c', evs, pend))"
| "react env (Call_setFilename s) c pend = Inr (setFilename env s c, [], pend)"
| "react env (Call_setGrabMode gm) c pend =
     (case setGrabMode gm c of
        Inl e \<Rightarrow> Inl e | Inr (c', evs) \<Rightarrow> Inr (c', evs, pend))"

fun run :: "Env \<Rightarrow> stimulus list \<Rightarrow> Session \<Rightarrow> error + Session" where
  "run env [] s = Inr s"
| "run env (st # sts) s =
     (case react env st (core s) (pending s) of
        Inl e \<Rightarrow> Inl e
      | Inr (c', evs, pend') \<Rightarrow>
          run env sts \<lparr>core = c', trace = trace s @ evs,
                       pending = pend' @ scheduled evs\<rparr>)"

text \<open>Starting the program: the constructor, then the event loop.\<close>

definition start ::
  "Env \<Rightarrow> StartMode \<Rightarrow> GrabMode \<Rightarrow> string \<Rightarrow> qint64 \<Rightarrow> bool \<Rightarrow> error + Session" where
  "start env startMode gm saveFileName delayMsec notifyOnGrab =
     (case SpectacleCore_ctor env startMode gm saveFileName delayMsec notifyOnGrab of
        Inl e \<Rightarrow> Inl e
      | Inr (c, evs) \<Rightarrow> Inr \<lparr>core = c, trace = evs, pending = scheduled evs\<rparr>)"

text \<open>A whole run: the program is started and the event loop delivers the stimuli.\<close>

definition execute ::
  "Env \<Rightarrow> StartMode \<Rightarrow> GrabMode \<Rightarrow> string \<Rightarrow> qint64 \<Rightarrow> bool \<Rightarrow> stimulus list
   \<Rightarrow> error + Session" where
  "execute env startMode gm saveFileName delayMsec notifyOnGrab stims =
     (case start env startMode gm saveFileName delayMsec notifyOnGrab of
        Inl e \<Rightarrow> Inl e
      | Inr s \<Rightarrow> run env stims s)"

text \<open>The pixmap of the most recent capture completion among the stimuli, if any.\<close>

fun lastCapture :: "stimulus list \<Rightarrow> QPixmap option \<Rightarrow> QPixmap option" where
  "lastCapture [] acc = acc"
| "lastCapture (Emitted (Emit_pixmapChanged p) # sts) acc = lastCapture sts (Some p)"
| "lastCapture (st # sts) acc = lastCapture sts acc"

text \<open>
  The stimuli of a run in which every capture succeeds and no notification has been
  dismissed or had its Open action activated yet.
\<close>

fun beforeDismissal :: "stimulus \<Rightarrow> bool" where
  "beforeDismissal (Emitted Emit_imageGrabFailed) = False"
| "beforeDismissal (Emitted (Emit_action1Activated n)) = False"
| "beforeDismissal (Emitted (Emit_destroyed n)) = False"
| "beforeDismissal st = True"

text \<open>The pixmap the export manager holds after an emission, after a stimulus.\<close>

definition capture :: "emission \<Rightarrow> QPixmap option \<Rightarrow> QPixmap option" where
  "capture em x = (case em of Emit_pixmapChanged p \<Rightarrow> Some p | _ \<Rightarrow> x)"

definition captured :: "stimulus \<Rightarrow> QPixmap option \<Rightarrow> QPixmap option" where
  "captured st x = (case st of Emitted em \<Rightarrow> capture em x | _ \<Rightarrow> x)"

section \<open>Well-formed states\<close>

text \<open>
  The pairs of signal and receiver that the source connects; \<open>connect\<close> compiles for
  no pair whose argument lists disagree.
\<close>

definition compatible :: "signal \<Rightarrow> slot \<Rightarrow> bool" where
  "compatible sg sl =
     (case sg of
        ExportManager_errorMessage \<Rightarrow> sl = Slot_showErrorMessage
      | SpectacleCore_errorMessage \<Rightarrow> sl = Slot_showErrorMessage
      | ImageGrabber_pixmapChanged \<Rightarrow> sl = Slot_screenshotUpdated
      | ImageGrabber_imageGrabFailed \<Rightarrow> sl = Slot_screenshotFailed
      | ExportManager_imageSaved \<Rightarrow> sl = Slot_doCopyPath \<or> sl = Slot_doNotify
      | ExportManager_forceNotify \<Rightarrow> sl = Slot_doNotify
      | KSMainWindow_newScreenshotRequest \<Rightarrow> sl = Slot_takeNewScreenshot
      | KSMainWindow_dragAndDropRequest \<Rightarrow> sl = Slot_doStartDragAndDrop
      | KNotification_action1Activated n \<Rightarrow>
          (case sl of Lambda_openSaved u \<Rightarrow> True | _ \<Rightarrow> False)
      | QObject_destroyed n \<Rightarrow> sl = Signal_allDone)"

text \<open>
  What the constructor establishes and every slot keeps: the grabber pointer is set, the
  GUI is initialised in GuiMode and the main window exists once it is, the connection
  table holds compatible pairs only, and
  the error messages and the two signals of the grabber each have the one receiver the
  constructor gave them.
\<close>

definition wellFormed :: "SpectacleCore \<Rightarrow> bool" where
  "wellFormed c \<longleftrightarrow>
     mImageGrabber c \<noteq> None
     \<and> (mStartMode c = GuiMode \<longrightarrow> isGuiInited c)
     \<and> (isGuiInited c \<longrightarrow> mMainWindow c \<noteq> None)
     \<and> list_all (\<lambda>cn. compatible (fst cn) (snd cn)) (connections c)
     \<and> receivers ExportManager_errorMessage c = [Slot_showErrorMessage]
     \<and> receivers SpectacleCore_errorMessage c = [Slot_showErrorMessage]
     \<and> receivers ImageGrabber_pixmapChanged c = [Slot_screenshotUpdated]
     \<and> receivers ImageGrabber_imageGrabFailed c = [Slot_screenshotFailed]"

section \<open>Sample sessions\<close>

text \<open>
  Concrete environments on which the model is evaluated: paths are Unix paths, the
  working directory is /home/user.
\<close>

definition unixIsRelative :: "string \<Rightarrow> bool" where
  "unixIsRelative s = (case s of [] \<Rightarrow> True | ch # _ \<Rightarrow> ch \<noteq> CHR ''/'')"

definition unixUrl :: "string \<Rightarrow> QUrl" where
  "unixUrl s =
     \<lparr>isValid = (s \<noteq> []),
      isLocalFile = (case s of [] \<Rightarrow> False | ch # _ \<Rightarrow> ch = CHR ''/''),
      fileName = rev (takeWhile (\<lambda>ch. ch \<noteq> CHR ''/'') (rev s)),
      toLocalFile = s,
      adjustedPath = rev (drop 1 (dropWhile (\<lambda>ch. ch \<noteq> CHR ''/'') (rev s)))\<rparr>"

text \<open>An X11 desktop with compositing; the X11 grabber supports on-click grabbing.\<close>

definition x11Session :: Env where
  "x11Session =
     \<lparr>XCB_FOUND = True, isPlatformX11 = True, isPlatformWayland = False,
      compositingActive = True,
      onClickGrabSupported = (\<lambda>b. b = X11ImageGrabber),
      includePointer = True, includeDecorations = True,
      isRelativePath = unixIsRelative,
      absoluteFilePath = (\<lambda>s. ''/home/user/'' @ s),
      fromUserInput = unixUrl,
      picturesLocation = ''/home/user/Pictures'',
      copySaveLocationToClipboard = False,
      tempSave = unixUrl ''/tmp/Spectacle.png''\<rparr>"

text \<open>A Wayland desktop.\<close>

definition waylandSession :: Env where
  "waylandSession = x11Session\<lparr>isPlatformX11 := False, isPlatformWayland := True\<rparr>"

text \<open>A session that is neither, without compositing: the dummy grabber, which does
  not grab on click.\<close>

definition plainSession :: Env where
  "plainSession = x11Session\<lparr>isPlatformX11 := False, compositingActive := False\<rparr>"

text \<open>
  The core that a background start with notification builds on the X11 desktop for the
  save file name shot.png.
\<close>

definition x11Grabber :: ImageGrabber where
  "x11Grabber = \<lparr>backend = X11ImageGrabber, mGrabMode = FullScreen,
     mCapturePointer = True, mCaptureDecorations = True\<rparr>"

definition backgroundCore :: SpectacleCore where
  "backgroundCore =
     \<lparr>mStartMode = BackgroundMode, mNotify = True, mImageGrabber = Some x11Grabber,
      mMainWindow = None, isGuiInited = False,
      mFileNameString = ''/home/user/shot.png'',
      mFileNameUrl = unixUrl ''/home/user/shot.png'',
      connections =
        [(ExportManager_errorMessage, Slot_showErrorMessage),
         (SpectacleCore_errorMessage, Slot_showErrorMessage),
         (ImageGrabber_pixmapChanged, Slot_screenshotUpdated),
         (ImageGrabber_imageGrabFailed, Slot_screenshotFailed),
         (ExportManager_imageSaved, Slot_doCopyPath),
         (ExportManager_forceNotify, Slot_doNotify)],
      notifications = 0, mSavePixmap = None\<rparr>"

section \<open>Basic facts\<close>

lemma chooseImageGrabber_eq:
  "chooseImageGrabber env =
     Some (if XCB_FOUND env \<and> isPlatformX11 env then X11ImageGrabber
           else if isPlatformWayland env then KWinWaylandImageGrabber
           else DummyImageGrabber)"
  by (simp add: chooseImageGrabber_def)

lemma backgroundCore_constructed:
  "SpectacleCore_ctor x11Session BackgroundMode FullScreen ''shot.png'' 0 True
     = Inr (backgroundCore, [TimerSingleShot 200 Target_doImageGrab])"
  by (simp add: SpectacleCore_ctor_def chooseImageGrabber_def x11Session_def backgroundCore_def
      x11Grabber_def setFilename_def unixIsRelative_def)

subsection \<open>Two's complement sums that stay in range\<close>

lemma sint_narrow:
  "- 2147483648 \<le> sint (w :: qint64) \<Longrightarrow> sint w \<le> 2147483647
   \<Longrightarrow> sint (scast w :: int32) = sint w"
  by (simp add: signed_scast_eq signed_take_bit_int_eq_self)

lemma sint_add64:
  "- 9223372036854775808 \<le> sint (a :: qint64) + sint b
   \<Longrightarrow> sint a + sint b \<le> 9223372036854775807
   \<Longrightarrow> sint (a + b) = sint a + sint b"
  by (simp add: sint_word_ariths signed_take_bit_int_eq_self)

lemma sint_add32:
  "- 2147483648 \<le> sint (a :: int32) + sint b
   \<Longrightarrow> sint a + sint b \<le> 2147483647
   \<Longrightarrow> sint (a + b) = sint a + sint b"
  by (simp add: sint_word_ariths signed_take_bit_int_eq_self)

lemma settle_narrow:
  assumes "- 2147483648 \<le> k + sint (d :: qint64)" "k + sint d \<le> 2147483647"
    and k: "sint (s :: qint64) = k" "0 \<le> k" "k \<le> 200"
  shows "sint (scast (s + d) :: int32) = k + sint d"
proof -
  have "sint (s + d) = sint s + sint d"
    using assms by (intro sint_add64) simp_all
  then show ?thesis
    using assms by (simp add: sint_narrow)
qed

subsection \<open>Every operation keeps the state well-formed\<close>

text \<open>
  Each lemma also says that the operation returns (no null pointer is dereferenced),
  what it does to the notify flag and to the stored pixmap, and whether it emits
  \<open>allDone\<close> or schedules it.
\<close>

lemma scheduled_append: "scheduled (xs @ ys) = scheduled xs @ scheduled ys"
  by (induction xs rule: scheduled.induct) simp_all

lemma wellFormed_ctor:
  "\<exists>c evs. SpectacleCore_ctor env startMode gm fname delayMsec notify = Inr (c, evs)
     \<and> wellFormed c \<and> mNotify c = notify \<and> mSavePixmap c = None
     \<and> Emit_allDone \<notin> set evs \<and> Target_allDone \<notin> set (scheduled evs)"
  by (cases startMode)
     (simp_all add: SpectacleCore_ctor_def chooseImageGrabber_eq initGui_def Let_def
        setFilename_def wellFormed_def receivers_def compatible_def)

lemma wellFormed_setFilename:
  "wellFormed c \<Longrightarrow> wellFormed (setFilename env s c)"
  by (simp add: wellFormed_def setFilename_def receivers_def)

lemma wellFormed_setGrabMode:
  "wellFormed c \<Longrightarrow> \<exists>c'. setGrabMode gm c = Inr (c', []) \<and> wellFormed c'
     \<and> mNotify c' = mNotify c \<and> mSavePixmap c' = mSavePixmap c"
  by (auto simp add: wellFormed_def setGrabMode_def receivers_def)

lemma wellFormed_dbusStartAgent:
  "wellFormed c \<Longrightarrow> \<exists>c' evs. dbusStartAgent env c = Inr (c', evs) \<and> wellFormed c'
     \<and> mNotify c' = mNotify c \<and> mSavePixmap c' = mSavePixmap c
     \<and> Emit_allDone \<notin> set evs \<and> Target_allDone \<notin> set (scheduled evs)"
  by (auto simp add: wellFormed_def dbusStartAgent_def initGui_def receivers_def compatible_def)

lemma wellFormed_takeNewScreenshot:
  "wellFormed c \<Longrightarrow> \<exists>c' evs. takeNewScreenshot env m t p d c = Inr (c', evs) \<and> wellFormed c'
     \<and> mNotify c' = mNotify c \<and> mSavePixmap c' = mSavePixmap c
     \<and> Emit_allDone \<notin> set evs \<and> Target_allDone \<notin> set (scheduled evs)"
  by (auto simp add: wellFormed_def takeNewScreenshot_def receivers_def Let_def)

lemma wellFormed_screenshotUpdated:
  "wellFormed c \<Longrightarrow> \<exists>c' evs. screenshotUpdated p c = Inr (c', evs) \<and> wellFormed c'
     \<and> mNotify c' = mNotify c \<and> mSavePixmap c' = Some p
     \<and> (mNotify c \<longrightarrow> Emit_allDone \<notin> set evs) \<and> Target_allDone \<notin> set (scheduled evs)"
  by (cases "mStartMode c")
     (auto simp add: wellFormed_def screenshotUpdated_def ExportManager_setPixmap_def
        receivers_def compatible_def Let_def)

lemma wellFormed_screenshotFailed:
  "wellFormed c \<Longrightarrow> \<exists>c' evs. screenshotFailed c = Inr (c', evs) \<and> wellFormed c'
     \<and> mNotify c' = mNotify c \<and> mSavePixmap c' = mSavePixmap c"
  by (cases "mStartMode c")
     (auto simp add: wellFormed_def screenshotFailed_def showErrorMessage_def)

lemma wellFormed_doNotify:
  "wellFormed c \<Longrightarrow> \<exists>c' evs. doNotify env u c = Inr (c', evs) \<and> wellFormed c'
     \<and> mNotify c' = mNotify c \<and> mSavePixmap c' = mSavePixmap c
     \<and> Emit_allDone \<notin> set evs \<and> Target_allDone \<notin> set (scheduled evs)"
  by (auto simp add: wellFormed_def doNotify_def receivers_def compatible_def Let_def)

lemma invoke_ok:
  assumes "wellFormed c" "compatible (signalOf em) sl"
  shows "\<exists>c' evs. invoke env sl em c = Inr (c', evs) \<and> wellFormed c'
     \<and> mNotify c' = mNotify c \<and> mSavePixmap c' = capture em (mSavePixmap c)
     \<and> (mNotify c \<and> beforeDismissal (Emitted em)
          \<longrightarrow> Emit_allDone \<notin> set evs \<and> Target_allDone \<notin> set (scheduled evs))"
proof (cases em)
  case (Emit_pixmapChanged p)
  then show ?thesis
    using assms wellFormed_screenshotUpdated [of c p]
    by (auto simp add: compatible_def invoke_def capture_def)
next
  case Emit_imageGrabFailed
  then show ?thesis
    using assms wellFormed_screenshotFailed [of c]
    by (auto simp add: compatible_def invoke_def capture_def)
next
  case (Emit_imageSaved u)
  then show ?thesis
    using assms wellFormed_doNotify [of c env u]
    by (auto simp add: compatible_def invoke_def capture_def doCopyPath_def)
next
  case (Emit_forceNotify u)
  then show ?thesis
    using assms wellFormed_doNotify [of c env u]
    by (auto simp add: compatible_def invoke_def capture_def)
next
  case (Emit_newScreenshotRequest m t p d)
  then show ?thesis
    using assms wellFormed_takeNewScreenshot [of c env m t p d]
    by (auto simp add: compatible_def invoke_def capture_def)
next
  case (Emit_action1Activated n)
  then show ?thesis
    using assms
    by (auto simp add: compatible_def invoke_def capture_def openSaved_def split: slot.splits)
qed (use assms in \<open>auto simp add: compatible_def invoke_def capture_def showErrorMessage_def
       doStartDragAndDrop_def Let_def\<close>)


lemma capture_idem: "capture em (capture em x) = capture em x"
  by (simp add: capture_def split: emission.splits)

lemma invokeAll_ok:
  assumes "wellFormed c" "list_all (compatible (signalOf em)) sls"
  shows "\<exists>c' evs. invokeAll env sls em c = Inr (c', evs) \<and> wellFormed c'
     \<and> mNotify c' = mNotify c
     \<and> mSavePixmap c' = (if sls = [] then mSavePixmap c else capture em (mSavePixmap c))
     \<and> (mNotify c \<and> beforeDismissal (Emitted em)
          \<longrightarrow> Emit_allDone \<notin> set evs \<and> Target_allDone \<notin> set (scheduled evs))"
  using assms
proof (induction sls arbitrary: c)
  case Nil
  then show ?case by simp
next
  case (Cons sl sls)
  from Cons.prems obtain c1 evs1 where
    1: "invoke env sl em c = Inr (c1, evs1)" "wellFormed c1" "mNotify c1 = mNotify c"
       "mSavePixmap c1 = capture em (mSavePixmap c)"
       "mNotify c \<and> beforeDismissal (Emitted em)
          \<longrightarrow> Emit_allDone \<notin> set evs1 \<and> Target_allDone \<notin> set (scheduled evs1)"
    using invoke_ok [of c em sl env] by auto
  from Cons.prems have "list_all (compatible (signalOf em)) sls" by simp
  with Cons.IH [OF 1(2)] obtain c2 evs2 where
    2: "invokeAll env sls em c1 = Inr (c2, evs2)" "wellFormed c2" "mNotify c2 = mNotify c1"
       "mSavePixmap c2 = (if sls = [] then mSavePixmap c1 else capture em (mSavePixmap c1))"
       "mNotify c1 \<and> beforeDismissal (Emitted em)
          \<longrightarrow> Emit_allDone \<notin> set evs2 \<and> Target_allDone \<notin> set (scheduled evs2)"
    by blast
  have "invokeAll env (sl # sls) em c = Inr (c2, evs1 @ evs2)"
    using 1(1) 2(1) by simp
  moreover have "mSavePixmap c2 = capture em (mSavePixmap c)"
    using 1(4) 2(4) by (simp add: capture_idem)
  ultimately show ?case
    using 1 2 by (simp add: scheduled_append)
qed

lemma receivers_compatible:
  "wellFormed c \<Longrightarrow> list_all (compatible sg) (receivers sg c)"
  by (auto simp add: wellFormed_def receivers_def list_all_iff)

lemma emitSignal_ok:
  assumes "wellFormed c"
  shows "\<exists>c' evs. emitSignal env em c = Inr (c', evs) \<and> wellFormed c'
     \<and> mNotify c' = mNotify c
     \<and> mSavePixmap c' = capture em (mSavePixmap c)
     \<and> (mNotify c \<and> beforeDismissal (Emitted em)
          \<longrightarrow> Emit_allDone \<notin> set evs \<and> Target_allDone \<notin> set (scheduled evs))"
proof -
  have "receivers (signalOf em) c \<noteq> [] \<or> capture em (mSavePixmap c) = mSavePixmap c"
    using assms by (cases em) (simp_all add: capture_def wellFormed_def)
  then have eq: "(if receivers (signalOf em) c = [] then mSavePixmap c
                  else capture em (mSavePixmap c)) = capture em (mSavePixmap c)"
    by auto
  show ?thesis
    using invokeAll_ok [OF assms receivers_compatible [OF assms], where em = em and env = env]
    unfolding emitSignal_def eq .
qed

lemma lastCapture_captured: "lastCapture (st # sts) acc = lastCapture sts (captured st acc)"
  by (cases "(st # sts, acc)" rule: lastCapture.cases)
     (simp_all add: captured_def capture_def)

lemma react_ok:
  assumes "wellFormed c"
  shows "\<exists>c' evs pend'. react env st c pend = Inr (c', evs, pend') \<and> wellFormed c'
     \<and> mNotify c' = mNotify c
     \<and> mSavePixmap c' = captured st (mSavePixmap c)
     \<and> (mNotify c \<and> beforeDismissal st \<and> Target_allDone \<notin> set pend
          \<longrightarrow> Emit_allDone \<notin> set evs \<and> Target_allDone \<notin> set (pend' @ scheduled evs))"
proof (cases st)
  case (Emitted em)
  then show ?thesis
    using emitSignal_ok [OF assms, of env em] by (auto simp add: captured_def)
next
  case (TimerFired t)
  then show ?thesis
    using assms by (cases t) (auto simp add: captured_def)
next
  case Call_dbusStartAgent
  then show ?thesis
    using wellFormed_dbusStartAgent [OF assms, of env] by (auto simp add: captured_def)
next
  case (Call_setFilename s)
  then show ?thesis
    using wellFormed_setFilename [OF assms, of env s]
    by (auto simp add: captured_def setFilename_def)
next
  case (Call_setGrabMode gm)
  then show ?thesis
    using wellFormed_setGrabMode [OF assms, of gm] by (auto simp add: captured_def)
qed

lemma run_ok:
  assumes "wellFormed (core s)"
  shows "\<exists>s'. run env sts s = Inr s' \<and> wellFormed (core s')
     \<and> mNotify (core s') = mNotify (core s)
     \<and> mSavePixmap (core s') = lastCapture sts (mSavePixmap (core s))
     \<and> (mNotify (core s) \<and> list_all beforeDismissal sts
          \<and> Emit_allDone \<notin> set (trace s) \<and> Target_allDone \<notin> set (pending s)
          \<longrightarrow> Emit_allDone \<notin> set (trace s') \<and> Target_allDone \<notin> set (pending s'))"
  using assms
proof (induction sts arbitrary: s)
  case Nil
  then show ?case by simp
next
  case (Cons st sts)
  from react_ok [OF Cons.prems, of env st "pending s"] obtain c' evs pend' where
    1: "react env st (core s) (pending s) = Inr (c', evs, pend')" "wellFormed c'"
       "mNotify c' = mNotify (core s)"
       "mSavePixmap c' = captured st (mSavePixmap (core s))"
       "mNotify (core s) \<and> beforeDismissal st \<and> Target_allDone \<notin> set (pending s)
          \<longrightarrow> Emit_allDone \<notin> set evs \<and> Target_allDone \<notin> set (pend' @ scheduled evs)"
    by blast
  let ?s1 = "\<lparr>core = c', trace = trace s @ evs, pending = pend' @ scheduled evs\<rparr>"
  have "wellFormed (core ?s1)" using 1(2) by simp
  from Cons.IH [OF this] obtain s' where
    2: "run env sts ?s1 = Inr s'" "wellFormed (core s')"
       "mNotify (core s') = mNotify (core ?s1)"
       "mSavePixmap (core s') = lastCapture sts (mSavePixmap (core ?s1))"
       "mNotify (core ?s1) \<and> list_all beforeDismissal sts
          \<and> Emit_allDone \<notin> set (trace ?s1) \<and> Target_allDone \<notin> set (pending ?s1)
          \<longrightarrow> Emit_allDone \<notin> set (trace s') \<and> Target_allDone \<notin> set (pending s')"
    by blast
  have "run env (st # sts) s = Inr s'"
    using 1(1) 2(1) by simp
  moreover have "mSavePixmap (core s') = lastCapture (st # sts) (mSavePixmap (core s))"
    using 1(4) 2(4) by (simp add: lastCapture_captured)
  ultimately show ?case
    using 1 2 by simp
qed

lemma execute_ok:
  "\<exists>s. execute env startMode gm fname delayMsec notify sts = Inr s \<and> wellFormed (core s)
     \<and> mNotify (core s) = notify
     \<and> mSavePixmap (core s) = lastCapture sts None
     \<and> (notify \<and> list_all beforeDismissal sts \<longrightarrow> Emit_allDone \<notin> set (trace s))"
proof -
  obtain c evs where
    1: "SpectacleCore_ctor env startMode gm fname delayMsec notify = Inr (c, evs)"
       "wellFormed c" "mNotify c = notify" "mSavePixmap c = None"
       "Emit_allDone \<notin> set evs" "Target_allDone \<notin> set (scheduled evs)"
    using wellFormed_ctor [of env startMode gm fname delayMsec notify] by blast
  let ?s0 = "\<lparr>core = c, trace = evs, pending = scheduled evs\<rparr>"
  have "wellFormed (core ?s0)" using 1(2) by simp
  from run_ok [OF this, of env sts] 1 show ?thesis
    by (auto simp add: execute_def start_def)
qed

lemma lastCapture_snoc:
  "lastCapture (sts @ [Emitted (Emit_pixmapChanged p)]) acc = Some p"
  by (induction sts acc rule: lastCapture.induct) simp_all

section \<open>The claims\<close>

text \<open>
  C1. Every capture request is to be delayed by a single-shot timer whose delay is the
  requested timeout plus the compositor settle amount, 200 ms when compositing is active
  and 50 ms otherwise: in \<open>takeNewScreenshot\<close> with \<open>timeout \<ge> 0\<close>, and in the
  BackgroundMode branch of the constructor with \<open>delayMsec\<close>. The constructor does not
  keep to this for every delay its \<open>qint64\<close> parameter admits. A background start
  on the X11 desktop, compositing active, with a delay of 4294967296 ms (2 to the power
  32): line 97 computes the sum 4294967496 in 64 bits and stores it in an \<open>int\<close>,
  which keeps the low 32 bits, and the timer is armed with 200 ms.
\<close>

theorem capture_delay_truncated:
  "map_sum id snd
     (SpectacleCore_ctor x11Session BackgroundMode FullScreen [] 4294967296 False)
     = Inr [TimerSingleShot 200 Target_doImageGrab]
   \<and> sint (200 :: int32) \<noteq> 200 + sint (4294967296 :: qint64)"
  by (simp add: SpectacleCore_ctor_def chooseImageGrabber_def x11Session_def)

text \<open>
  Where the sum is an \<open>int\<close> and not negative the code does arm the timer with
  it, at both call sites; in the constructor \<open>delayMsec\<close> is taken as it stands on
  line 97, a negative value having been replaced by 0 when the backend does not grab on
  click.
\<close>

lemma capture_delay_in_range:
  "(mImageGrabber c = Some g \<and> 0 \<le> sint timeout
      \<and> sint timeout + (if compositingActive env then 200 else 50) \<le> 2147483647
    \<longrightarrow> (\<exists>c' d. takeNewScreenshot env mode timeout ptr deco c
                   = Inr (c', [TimerSingleShot d Target_doImageGrab])
               \<and> sint d = sint timeout + (if compositingActive env then 200 else 50)))
   \<and> (chooseImageGrabber env = Some b
      \<and> eff = (if \<not> onClickGrabSupported env b \<and> sint delayMsec < 0 then 0 else delayMsec)
      \<and> 0 \<le> (if compositingActive env then 200 else 50) + sint eff
      \<and> (if compositingActive env then 200 else 50) + sint eff \<le> 2147483647
    \<longrightarrow> (\<exists>c' d. SpectacleCore_ctor env BackgroundMode gm fname delayMsec notify
                   = Inr (c', [TimerSingleShot d Target_doImageGrab])
               \<and> sint d = (if compositingActive env then 200 else 50) + sint eff))"
proof (intro conjI impI)
  assume a: "mImageGrabber c = Some g \<and> 0 \<le> sint timeout
      \<and> sint timeout + (if compositingActive env then 200 else 50) \<le> 2147483647"
  have "sint (timeout + (if compositingActive env then 200 else 50 :: int32))
        = sint timeout + sint (if compositingActive env then 200 else 50 :: int32)"
    using a by (intro sint_add32) (simp_all split: if_splits)
  then show "\<exists>c' d. takeNewScreenshot env mode timeout ptr deco c
                   = Inr (c', [TimerSingleShot d Target_doImageGrab])
               \<and> sint d = sint timeout + (if compositingActive env then 200 else 50)"
    using a by (simp add: takeNewScreenshot_def Let_def split: if_splits)
next
  let ?k = "if compositingActive env then 200 else 50 :: int"
  let ?s = "if compositingActive env then 200 else 50 :: qint64"
  assume a: "chooseImageGrabber env = Some b
      \<and> eff = (if \<not> onClickGrabSupported env b \<and> sint delayMsec < 0 then 0 else delayMsec)
      \<and> 0 \<le> (if compositingActive env then 200 else 50) + sint eff
      \<and> (if compositingActive env then 200 else 50) + sint eff \<le> 2147483647"
  then have b: "chooseImageGrabber env = Some b"
    and eff: "eff = (if \<not> onClickGrabSupported env b \<and> sint delayMsec < 0 then 0 else delayMsec)"
    and nonneg: "0 \<le> ?k + sint eff" and hi: "?k + sint eff \<le> 2147483647"
    by blast+
  from nonneg have lo: "- 2147483648 \<le> ?k + sint eff"
    by linarith
  have k: "sint ?s = ?k" "0 \<le> ?k" "?k \<le> 200"
    by simp_all
  have "sint (scast (?s + eff) :: int32) = ?k + sint eff"
    using lo hi k by (rule settle_narrow)
  moreover have "SpectacleCore_ctor env BackgroundMode gm fname delayMsec notify
        = Inr (fst (projr (SpectacleCore_ctor env BackgroundMode gm fname delayMsec notify)),
               [TimerSingleShot (scast (?s + eff)) Target_doImageGrab])"
    unfolding eff by (simp add: SpectacleCore_ctor_def Let_def b)
  ultimately show "\<exists>c' d. SpectacleCore_ctor env BackgroundMode gm fname delayMsec notify
                   = Inr (c', [TimerSingleShot d Target_doImageGrab])
               \<and> sint d = (if compositingActive env then 200 else 50) + sint eff"
    by blast
qed

text \<open>
  On the X11 desktop with compositing: a request for a rectangular region after 5000 ms
  arms the timer with 5200 ms, a background start with a delay of 3000 ms with 3200 ms.
\<close>

lemma capture_delay_in_range_example:
  "mImageGrabber backgroundCore = Some x11Grabber
   \<and> 0 \<le> sint (5000 :: int32)
   \<and> compositingActive x11Session
   \<and> map_sum id snd (takeNewScreenshot x11Session RectangularRegion 5000 True False
        backgroundCore) = Inr [TimerSingleShot 5200 Target_doImageGrab]
   \<and> chooseImageGrabber x11Session = Some X11ImageGrabber
   \<and> map_sum id snd (SpectacleCore_ctor x11Session BackgroundMode FullScreen ''shot.png''
        3000 True) = Inr [TimerSingleShot 3200 Target_doImageGrab]"
proof -
  have h1: "mImageGrabber backgroundCore = Some x11Grabber \<and> 0 \<le> sint (5000 :: int32)
      \<and> sint (5000 :: int32) + (if compositingActive x11Session then 200 else 50)
          \<le> 2147483647"
    by (simp add: backgroundCore_def x11Session_def)
  have h2: "chooseImageGrabber x11Session = Some X11ImageGrabber
      \<and> (3000 :: qint64) = (if \<not> onClickGrabSupported x11Session X11ImageGrabber
                                \<and> sint (3000 :: qint64) < 0 then 0 else 3000)
      \<and> 0 \<le> (if compositingActive x11Session then 200 else 50) + sint (3000 :: qint64)
      \<and> (if compositingActive x11Session then 200 else 50) + sint (3000 :: qint64)
          \<le> 2147483647"
    by (simp add: chooseImageGrabber_def x11Session_def)
  from capture_delay_in_range
    [of backgroundCore x11Grabber 5000 x11Session RectangularRegion True False
        X11ImageGrabber 3000 3000 FullScreen "''shot.png''" True]
    h1 h2
  have "(\<exists>c' d. takeNewScreenshot x11Session RectangularRegion 5000 True False backgroundCore
                   = Inr (c', [TimerSingleShot d Target_doImageGrab])
               \<and> sint d = sint (5000 :: int32)
                    + (if compositingActive x11Session then 200 else 50))
      \<and> (\<exists>c' d. SpectacleCore_ctor x11Session BackgroundMode FullScreen ''shot.png'' 3000 True
                   = Inr (c', [TimerSingleShot d Target_doImageGrab])
               \<and> sint d = (if compositingActive x11Session then 200 else 50)
                    + sint (3000 :: qint64))"
    by blast
  then show ?thesis
    using h1 h2
    by (simp add: takeNewScreenshot_def SpectacleCore_ctor_def backgroundCore_def
        x11Session_def Let_def)
qed

text \<open>
  C2. The constructor dispatches on the start mode, which has three values. In DBusMode
  it takes no startup action: nothing is scheduled and the GUI is not initialised. In
  BackgroundMode it arms exactly one single-shot timer for \<open>doImageGrab\<close> and does
  not initialise the GUI. In GuiMode it initialises the GUI, which builds the main
  window and queues exactly one \<open>doImageGrab\<close>. Nothing else happens at startup.
\<close>

theorem constructor_dispatches_on_start_mode:
  "(\<exists>c. SpectacleCore_ctor env DBusMode gm fname delayMsec notify = Inr (c, [])
        \<and> \<not> isGuiInited c \<and> mMainWindow c = None)
   \<and> (\<exists>c d. SpectacleCore_ctor env BackgroundMode gm fname delayMsec notify
               = Inr (c, [TimerSingleShot d Target_doImageGrab])
          \<and> \<not> isGuiInited c \<and> mMainWindow c = None)
   \<and> (\<exists>c w. SpectacleCore_ctor env GuiMode gm fname delayMsec notify
               = Inr (c, [QueuedInvoke_doImageGrab])
          \<and> isGuiInited c \<and> mMainWindow c = Some w)"
  by (simp add: SpectacleCore_ctor_def chooseImageGrabber_eq initGui_def Let_def setFilename_def)

text \<open>The three starts on the X11 desktop, with no save file name and no delay.\<close>

theorem constructor_dispatches_on_start_mode_witness:
  "map_sum id snd (SpectacleCore_ctor x11Session DBusMode FullScreen [] 0 False) = Inr []
   \<and> map_sum id snd (SpectacleCore_ctor x11Session BackgroundMode FullScreen [] 0 False)
       = Inr [TimerSingleShot 200 Target_doImageGrab]
   \<and> map_sum id snd (SpectacleCore_ctor x11Session GuiMode FullScreen [] 0 False)
       = Inr [QueuedInvoke_doImageGrab]"
  using constructor_dispatches_on_start_mode [of x11Session FullScreen "[]" 0 False]
  by (auto simp add: SpectacleCore_ctor_def chooseImageGrabber_def x11Session_def)




text \<open>
  C4. A background run captures and saves and never shows a window. The BackgroundMode
  branch of the constructor arms the grab timer and leaves the GUI uninitialised and the
  main window pointer null. In BackgroundMode \<open>screenshotUpdated\<close> hands the pixmap to
  the export manager and calls its \<open>doSave\<close> (with the file name URL when it is a
  valid local file, with the empty URL otherwise), then emits \<open>allDone\<close> unless a
  notification is to follow; it makes no call on the main window and leaves the pointer
  as it is. So the run from the start over the timer to the completed capture consists
  of the timer, the grab and the save.
\<close>

theorem background_run_shows_no_window:
  "(\<exists>c d. SpectacleCore_ctor env BackgroundMode gm fname delayMsec notify
             = Inr (c, [TimerSingleShot d Target_doImageGrab])
        \<and> mMainWindow c = None \<and> \<not> isGuiInited c)
   \<and> (mStartMode c = BackgroundMode
       \<longrightarrow> (\<exists>c'. screenshotUpdated p c
                   = Inr (c', ExportManager_doSave
                                (if isValid (mFileNameUrl c) \<and> isLocalFile (mFileNameUrl c)
                                 then mFileNameUrl c else QUrl_empty)
                              # (if mNotify c then [] else [Emit_allDone]))
               \<and> mSavePixmap c' = Some p
               \<and> mMainWindow c' = mMainWindow c \<and> isGuiInited c' = isGuiInited c))
   \<and> (\<exists>s d u. execute env BackgroundMode gm fname delayMsec notify
                 [TimerFired Target_doImageGrab, Emitted (Emit_pixmapChanged p)] = Inr s
        \<and> trace s = [TimerSingleShot d Target_doImageGrab, Grabber_doImageGrab,
                      ExportManager_doSave u] @ (if notify then [] else [Emit_allDone])
        \<and> mMainWindow (core s) = None \<and> \<not> isGuiInited (core s))"
  by (simp add: SpectacleCore_ctor_def chooseImageGrabber_eq Let_def setFilename_def
      screenshotUpdated_def ExportManager_setPixmap_def execute_def start_def
      emitSignal_def receivers_def invoke_def)

text \<open>The background start on the X11 desktop that saves to shot.png and notifies.\<close>

theorem background_run_shows_no_window_witness:
  "mStartMode backgroundCore = BackgroundMode
   \<and> map_sum id snd (screenshotUpdated (QPixmap 1) backgroundCore)
       = Inr [ExportManager_doSave (unixUrl ''/home/user/shot.png'')]
   \<and> map_sum id trace
       (execute x11Session BackgroundMode FullScreen ''shot.png'' 0 True
          [TimerFired Target_doImageGrab, Emitted (Emit_pixmapChanged (QPixmap 1))])
       = Inr [TimerSingleShot 200 Target_doImageGrab, Grabber_doImageGrab,
              ExportManager_doSave (unixUrl ''/home/user/shot.png'')]"
proof -
  have mode: "mStartMode backgroundCore = BackgroundMode"
    by (simp add: backgroundCore_def)
  have url: "mFileNameUrl backgroundCore = unixUrl ''/home/user/shot.png''"
      "isValid (unixUrl ''/home/user/shot.png'')"
      "isLocalFile (unixUrl ''/home/user/shot.png'')" "mNotify backgroundCore"
    by (simp_all add: backgroundCore_def unixUrl_def)
  from background_run_shows_no_window
    [of x11Session FullScreen "''shot.png''" 0 True backgroundCore "QPixmap 1"] mode
  have "\<exists>c'. screenshotUpdated (QPixmap 1) backgroundCore
      = Inr (c', [ExportManager_doSave (unixUrl ''/home/user/shot.png'')])"
    by (auto simp add: url)
  then show ?thesis
    using mode
    by (auto simp add: execute_def start_def backgroundCore_constructed emitSignal_def
        receivers_def invoke_def backgroundCore_def)
qed

text \<open>
  C5. The constructor chooses the capture backend by platform: the X11 grabber on an X11
  session when XCB support is compiled in; otherwise the KWin Wayland grabber on a
  Wayland session; the dummy grabber in every other case. In every case and every start
  mode the constructor returns with the grabber pointer set.
\<close>

theorem backend_chosen_by_platform:
  "\<exists>c evs g. SpectacleCore_ctor env startMode gm fname delayMsec notify = Inr (c, evs)
       \<and> mImageGrabber c = Some g
       \<and> (XCB_FOUND env \<and> isPlatformX11 env \<longrightarrow> backend g = X11ImageGrabber)
       \<and> (\<not> (XCB_FOUND env \<and> isPlatformX11 env) \<and> isPlatformWayland env
            \<longrightarrow> backend g = KWinWaylandImageGrabber)
       \<and> (\<not> (XCB_FOUND env \<and> isPlatformX11 env) \<and> \<not> isPlatformWayland env
            \<longrightarrow> backend g = DummyImageGrabber)"
  by (cases startMode)
     (simp_all add: SpectacleCore_ctor_def chooseImageGrabber_eq initGui_def Let_def setFilename_def)

text \<open>The X11 desktop, the Wayland desktop and the session that is neither.\<close>

theorem backend_chosen_by_platform_witness:
  "XCB_FOUND x11Session \<and> isPlatformX11 x11Session
   \<and> map_sum id (\<lambda>r. map_option backend (mImageGrabber (fst r)))
        (SpectacleCore_ctor x11Session GuiMode FullScreen [] 0 False)
       = Inr (Some X11ImageGrabber)
   \<and> \<not> isPlatformX11 waylandSession \<and> isPlatformWayland waylandSession
   \<and> map_sum id (\<lambda>r. map_option backend (mImageGrabber (fst r)))
        (SpectacleCore_ctor waylandSession GuiMode FullScreen [] 0 False)
       = Inr (Some KWinWaylandImageGrabber)
   \<and> \<not> isPlatformX11 plainSession \<and> \<not> isPlatformWayland plainSession
   \<and> map_sum id (\<lambda>r. map_option backend (mImageGrabber (fst r)))
        (SpectacleCore_ctor plainSession GuiMode FullScreen [] 0 False)
       = Inr (Some DummyImageGrabber)"
  using backend_chosen_by_platform [of x11Session GuiMode FullScreen "[]" 0 False]
    backend_chosen_by_platform [of waylandSession GuiMode FullScreen "[]" 0 False]
    backend_chosen_by_platform [of plainSession GuiMode FullScreen "[]" 0 False]
  by (auto simp add: x11Session_def waylandSession_def plainSession_def)

text \<open>
  C6. The state is the record of value holders above, with one slot for a pixmap, so at
  most one screenshot is pending at any time. In every run, whatever the stimuli, the
  program does not stop on an error and the slot holds the pixmap of the most recent
  capture completion (nothing before the first one): a capture completion replaces the
  stored pixmap, and no other operation changes it.
\<close>

theorem capture_replaces_stored_pixmap:
  "(\<exists>s. execute env startMode gm fname delayMsec notify stims = Inr s
       \<and> mSavePixmap (core s) = lastCapture stims None)
   \<and> (\<exists>s. execute env startMode gm fname delayMsec notify
              (stims @ [Emitted (Emit_pixmapChanged p)]) = Inr s
       \<and> mSavePixmap (core s) = Some p)"
  using execute_ok [of env startMode gm fname delayMsec notify stims]
    execute_ok [of env startMode gm fname delayMsec notify
      "stims @ [Emitted (Emit_pixmapChanged p)]"]
  by (auto simp add: lastCapture_snoc)

text \<open>
  A D-Bus start on the X11 desktop: after two captures with a failed one and a property
  write in between, the second pixmap is the one held.
\<close>

theorem capture_replaces_stored_pixmap_witness:
  "map_sum id (\<lambda>s. mSavePixmap (core s))
     (execute x11Session DBusMode FullScreen [] 0 False
        [Emitted (Emit_pixmapChanged (QPixmap 1)), Emitted Emit_imageGrabFailed,
         Call_setGrabMode ActiveWindow, Emitted (Emit_pixmapChanged (QPixmap 2))])
     = Inr (Some (QPixmap 2))"
  using capture_replaces_stored_pixmap
    [of x11Session DBusMode FullScreen "[]" 0 False
        "[Emitted (Emit_pixmapChanged (QPixmap 1)), Emitted Emit_imageGrabFailed,
          Call_setGrabMode ActiveWindow, Emitted (Emit_pixmapChanged (QPixmap 2))]"
        "QPixmap 3"]
  by auto

text \<open>
  C8. \<open>takeNewScreenshot\<close> with a negative timeout performs the capture as an
  on-click grab: \<open>doOnClickGrab\<close> is its only call, no timer is armed. In the
  constructor a negative delay counts as 0 whenever the chosen backend does not support
  on-click grabbing: the constructor then does exactly what it does for the delay 0.
\<close>

theorem negative_timeout_grabs_on_click:
  "(mImageGrabber c = Some g \<and> sint timeout < 0
    \<longrightarrow> (\<exists>c'. takeNewScreenshot env mode timeout ptr deco c
                 = Inr (c', [Grabber_doOnClickGrab])))
   \<and> (chooseImageGrabber env = Some b \<and> \<not> onClickGrabSupported env b \<and> sint delayMsec < 0
    \<longrightarrow> SpectacleCore_ctor env startMode gm fname delayMsec notify
          = SpectacleCore_ctor env startMode gm fname 0 notify)"
  by (simp add: takeNewScreenshot_def SpectacleCore_ctor_def Let_def)

text \<open>
  The session with the dummy grabber and no compositing, timeout and delay -1: the
  request grabs on click, the background start arms the timer with 50 ms.
\<close>

theorem negative_timeout_grabs_on_click_witness:
  "mImageGrabber backgroundCore = Some x11Grabber \<and> sint (- 1 :: int32) < 0
   \<and> map_sum id snd (takeNewScreenshot plainSession WindowUnderCursor (- 1) True True
        backgroundCore) = Inr [Grabber_doOnClickGrab]
   \<and> chooseImageGrabber plainSession = Some DummyImageGrabber
   \<and> sint (- 1 :: qint64) < 0
   \<and> map_sum id snd (SpectacleCore_ctor plainSession BackgroundMode FullScreen [] (- 1) False)
       = Inr [TimerSingleShot 50 Target_doImageGrab]"
proof -
  have h1: "mImageGrabber backgroundCore = Some x11Grabber \<and> sint (- 1 :: int32) < 0"
    by (simp add: backgroundCore_def)
  have h2: "chooseImageGrabber plainSession = Some DummyImageGrabber
      \<and> \<not> onClickGrabSupported plainSession DummyImageGrabber \<and> sint (- 1 :: qint64) < 0"
    by (simp add: chooseImageGrabber_def plainSession_def x11Session_def)
  have zero: "map_sum id snd
      (SpectacleCore_ctor plainSession BackgroundMode FullScreen [] 0 False)
      = Inr [TimerSingleShot 50 Target_doImageGrab]"
    by (simp add: SpectacleCore_ctor_def chooseImageGrabber_def plainSession_def x11Session_def)
  from negative_timeout_grabs_on_click
    [of backgroundCore x11Grabber "- 1" plainSession WindowUnderCursor True True
        DummyImageGrabber "- 1" BackgroundMode FullScreen "[]" False] h1 h2
  have "(\<exists>c'. takeNewScreenshot plainSession WindowUnderCursor (- 1) True True backgroundCore
                 = Inr (c', [Grabber_doOnClickGrab]))
      \<and> SpectacleCore_ctor plainSession BackgroundMode FullScreen [] (- 1) False
          = SpectacleCore_ctor plainSession BackgroundMode FullScreen [] 0 False"
    by blast
  then show ?thesis
    using h1 h2 zero by auto
qed

text \<open>
  C9 (amended). \<open>setFilename s\<close> stores \<open>s\<close> as it is, relative or not:
  afterwards \<open>filename\<close> returns \<open>s\<close> and the stored URL is
  \<open>QUrl::fromUserInput s\<close>. The constructor makes a non-empty relative save file
  name absolute against the current directory before it stores it, so the file name the
  constructor leaves is absolute or empty (\<open>QDir::current().absoluteFilePath\<close>
  answering with a path that is not relative).
\<close>

theorem setFilename_stores_and_constructor_absolutises:
  "filename (setFilename env s c) = s
   \<and> mFileNameUrl (setFilename env s c) = fromUserInput env s
   \<and> ((isRelativePath env fname \<longrightarrow> \<not> isRelativePath env (absoluteFilePath env fname))
      \<longrightarrow> (\<exists>c' evs. SpectacleCore_ctor env startMode gm fname delayMsec notify = Inr (c', evs)
            \<and> filename c' = (if fname = [] then []
                              else if isRelativePath env fname then absoluteFilePath env fname
                              else fname)
            \<and> mFileNameUrl c' = (if fname = [] then QUrl_empty
                                  else fromUserInput env (filename c'))
            \<and> (filename c' = [] \<or> \<not> isRelativePath env (filename c'))))"
  by (cases startMode)
     (auto simp add: filename_def SpectacleCore_ctor_def chooseImageGrabber_eq initGui_def Let_def
        setFilename_def)

text \<open>A background start on the X11 desktop in /home/user, asked to save to shot.png.\<close>

theorem setFilename_stores_and_constructor_absolutises_witness:
  "isRelativePath x11Session ''shot.png''
   \<and> \<not> isRelativePath x11Session (absoluteFilePath x11Session ''shot.png'')
   \<and> map_sum id (\<lambda>r. filename (fst r))
       (SpectacleCore_ctor x11Session BackgroundMode FullScreen ''shot.png'' 0 True)
       = Inr ''/home/user/shot.png''
   \<and> filename (setFilename x11Session ''/tmp/a.png'' backgroundCore) = ''/tmp/a.png''"
proof -
  have h: "isRelativePath x11Session ''shot.png''
      \<and> \<not> isRelativePath x11Session (absoluteFilePath x11Session ''shot.png'')"
    by (simp add: x11Session_def unixIsRelative_def)
  have abs: "absoluteFilePath x11Session ''shot.png'' = ''/home/user/shot.png''"
    by (simp add: x11Session_def)
  from setFilename_stores_and_constructor_absolutises
    [of x11Session "''/tmp/a.png''" backgroundCore "''shot.png''" BackgroundMode FullScreen
        0 True] h
  show ?thesis
    by (auto simp add: abs)
qed

text \<open>
  A D-Bus start on the X11 desktop with the save file name /tmp/a.png, then the property
  write \<open>setFilename\<close> with shot.png: the stored file name is shot.png, which is
  relative and not empty.
\<close>

theorem setFilename_stores_relative_name:
  "map_sum id (\<lambda>s. filename (core s))
     (execute x11Session DBusMode FullScreen ''/tmp/a.png'' 0 False
        [Call_setFilename ''shot.png'']) = Inr ''shot.png''
   \<and> isRelativePath x11Session ''shot.png'' \<and> ''shot.png'' \<noteq> []"
  by (simp add: execute_def start_def SpectacleCore_ctor_def chooseImageGrabber_def
      x11Session_def setFilename_def filename_def unixIsRelative_def)

text \<open>
  C10. In BackgroundMode and DBusMode, after a successful capture \<open>allDone\<close> is to
  be emitted immediately after the save is initiated if and only if notify-on-grab is
  disabled, and with notify-on-grab enabled never before the notification is dismissed
  or its Open action is activated; the comment in \<open>screenshotUpdated\<close> gives the
  reason, the application would close before it can react. \<open>screenshotFailed\<close>
  does not keep to this: it emits \<open>allDone\<close> without looking at \<open>mNotify\<close>. A
  D-Bus start on the X11 desktop with notify-on-grab: a capture completes, the export
  manager reports the file saved, the notification is sent; then a second capture fails,
  and \<open>allDone\<close> is emitted while the notification is neither dismissed nor opened.
\<close>

theorem failed_capture_emits_allDone_before_dismissal:
  "map_sum id trace
     (execute x11Session DBusMode FullScreen [] 0 True
        [Emitted (Emit_pixmapChanged (QPixmap 1)),
         Emitted (Emit_imageSaved (unixUrl ''/home/user/Pictures/shot.png'')),
         Emitted Emit_imageGrabFailed])
     = Inr [ExportManager_doSave QUrl_empty,
            Notification_sendEvent 0 (Some ''Full Screen Captured'')
              ''A screenshot was saved as 'shot.png' to your Pictures folder.''
              (unixUrl ''/home/user/Pictures/shot.png''),
            Emit_grabFailed, Emit_allDone]"
  by (simp add: execute_def start_def SpectacleCore_ctor_def chooseImageGrabber_def
      x11Session_def emitSignal_def receivers_def invoke_def screenshotUpdated_def
      ExportManager_setPixmap_def doCopyPath_def doNotify_def screenshotFailed_def
      unixUrl_def Let_def)

text \<open>
  What the code does keep to. Outside GuiMode \<open>screenshotUpdated\<close> initiates the
  save and emits \<open>allDone\<close> immediately after it if and only if notify-on-grab is
  disabled. With notify-on-grab enabled, a run in which no capture fails emits no
  \<open>allDone\<close> as long as no notification has been dismissed or had its Open action
  activated: whatever the start mode and the stimuli of that kind, the program runs on
  without error and its trace has no \<open>allDone\<close>.
\<close>

lemma allDone_absent_while_captures_succeed:
  "(mStartMode c \<noteq> GuiMode
     \<longrightarrow> (\<exists>c' u. screenshotUpdated p c
                   = Inr (c', ExportManager_doSave u #
                              (if mNotify c then [] else [Emit_allDone]))))
   \<and> (list_all beforeDismissal stims
     \<longrightarrow> (\<exists>s. execute env startMode gm fname delayMsec True stims = Inr s
              \<and> Emit_allDone \<notin> set (trace s)))"
proof (intro conjI impI)
  assume "mStartMode c \<noteq> GuiMode"
  then show "\<exists>c' u. screenshotUpdated p c
                   = Inr (c', ExportManager_doSave u #
                              (if mNotify c then [] else [Emit_allDone]))"
    by (cases "mStartMode c")
       (simp_all add: screenshotUpdated_def ExportManager_setPixmap_def Let_def)
next
  assume "list_all beforeDismissal stims"
  then show "\<exists>s. execute env startMode gm fname delayMsec True stims = Inr s
              \<and> Emit_allDone \<notin> set (trace s)"
    using execute_ok [of env startMode gm fname delayMsec True stims] by blast
qed

text \<open>
  The background start on the X11 desktop that saves to shot.png and notifies: the timer
  fires, the capture completes, the export manager reports the file saved. The run ends
  with the notification sent and has no \<open>allDone\<close>.
\<close>

lemma allDone_absent_while_captures_succeed_example:
  "mStartMode backgroundCore \<noteq> GuiMode \<and> mNotify backgroundCore
   \<and> map_sum id snd (screenshotUpdated (QPixmap 1) backgroundCore)
       = Inr [ExportManager_doSave (unixUrl ''/home/user/shot.png'')]
   \<and> list_all beforeDismissal
       [TimerFired Target_doImageGrab, Emitted (Emit_pixmapChanged (QPixmap 1)),
        Emitted (Emit_imageSaved (unixUrl ''/home/user/shot.png'')),
        TimerFired Target_allDone]
   \<and> map_sum id (\<lambda>s. Emit_allDone \<in> set (trace s))
       (execute x11Session BackgroundMode FullScreen ''shot.png'' 0 True
          [TimerFired Target_doImageGrab, Emitted (Emit_pixmapChanged (QPixmap 1)),
           Emitted (Emit_imageSaved (unixUrl ''/home/user/shot.png'')),
           TimerFired Target_allDone])
       = Inr False"
proof -
  have h1: "mStartMode backgroundCore \<noteq> GuiMode \<and> mNotify backgroundCore"
    by (simp add: backgroundCore_def)
  have h2: "list_all beforeDismissal
       [TimerFired Target_doImageGrab, Emitted (Emit_pixmapChanged (QPixmap 1)),
        Emitted (Emit_imageSaved (unixUrl ''/home/user/shot.png'')),
        TimerFired Target_allDone]"
    by simp
  have save: "map_sum id snd (screenshotUpdated (QPixmap 1) backgroundCore)
       = Inr [ExportManager_doSave (unixUrl ''/home/user/shot.png'')]"
    by (simp add: screenshotUpdated_def ExportManager_setPixmap_def backgroundCore_def
        unixUrl_def)
  from allDone_absent_while_captures_succeed
    [of backgroundCore "QPixmap 1"
        "[TimerFired Target_doImageGrab, Emitted (Emit_pixmapChanged (QPixmap 1)),
          Emitted (Emit_imageSaved (unixUrl ''/home/user/shot.png'')),
          TimerFired Target_allDone]"
        x11Session BackgroundMode FullScreen "''shot.png''" 0] h2
  have "\<exists>s. execute x11Session BackgroundMode FullScreen ''shot.png'' 0 True
          [TimerFired Target_doImageGrab, Emitted (Emit_pixmapChanged (QPixmap 1)),
           Emitted (Emit_imageSaved (unixUrl ''/home/user/shot.png'')),
           TimerFired Target_allDone] = Inr s \<and> Emit_allDone \<notin> set (trace s)"
    by blast
  then show ?thesis
    using h1 h2 save by auto
qed

text \<open>
  The same run continued: once the notification is destroyed \<open>allDone\<close> is
  emitted; once its Open action is activated the saved file is opened and \<open>allDone\<close>
  follows through the 250 ms timer.
\<close>

lemma x11Session_fields:
  "picturesLocation x11Session = ''/home/user/Pictures''"
  "\<not> copySaveLocationToClipboard x11Session"
  by (simp_all add: x11Session_def)

lemma dismissal_emits_allDone:
  "map_sum id trace
     (execute x11Session BackgroundMode FullScreen ''shot.png'' 0 True
        [TimerFired Target_doImageGrab, Emitted (Emit_pixmapChanged (QPixmap 1)),
         Emitted (Emit_imageSaved (unixUrl ''/home/user/shot.png'')),
         Emitted (Emit_destroyed 0)])
     = Inr [TimerSingleShot 200 Target_doImageGrab, Grabber_doImageGrab,
            ExportManager_doSave (unixUrl ''/home/user/shot.png''),
            Notification_sendEvent 0 (Some ''Full Screen Captured'')
              ''A screenshot was saved as 'shot.png' to '/home/user'.''
              (unixUrl ''/home/user/shot.png''),
            Emit_allDone]"
  by (simp add: execute_def start_def backgroundCore_constructed emitSignal_def receivers_def
      invoke_def backgroundCore_def screenshotUpdated_def ExportManager_setPixmap_def
      doCopyPath_def doNotify_def x11Session_fields x11Grabber_def unixUrl_def Let_def)

lemma open_action_emits_allDone:
  "map_sum id (\<lambda>s. drop 4 (trace s))
     (execute x11Session BackgroundMode FullScreen ''shot.png'' 0 True
        [TimerFired Target_doImageGrab, Emitted (Emit_pixmapChanged (QPixmap 1)),
         Emitted (Emit_imageSaved (unixUrl ''/home/user/shot.png'')),
         Emitted (Emit_action1Activated 0), TimerFired Target_allDone])
     = Inr [KRun_open (unixUrl ''/home/user/shot.png''),
            TimerSingleShot 250 Target_allDone, Emit_allDone]"
  by (simp add: execute_def start_def backgroundCore_constructed emitSignal_def receivers_def
      invoke_def backgroundCore_def screenshotUpdated_def ExportManager_setPixmap_def
      doCopyPath_def doNotify_def openSaved_def x11Session_fields x11Grabber_def unixUrl_def
      Let_def)

end
